theory Spec2Isabelle
  imports Main "HOL-Library.Word"
begin

section \<open>Edge-triggered interrupt dispatch of jakestering.c\<close>

text \<open>
  The interrupt part of \<^verbatim>\<open>jakestering.c\<close> keeps its whole state in file-level
  variables: the chip descriptor, five tables indexed by pin and the hand-over variable
  \<^verbatim>\<open>pin_pass\<close>. The functions are embedded as state transformers over a record of
  those variables. What the operating system answers (the results of \<^verbatim>\<open>open\<close>,
  \<^verbatim>\<open>ioctl\<close>, \<^verbatim>\<open>fcntl\<close>, \<^verbatim>\<open>pthread_create\<close>, \<^verbatim>\<open>pthread_cancel\<close>,
  \<^verbatim>\<open>poll\<close> and \<^verbatim>\<open>read\<close>) is an argument of the function that makes the call.
  What the code does to the operating system is recorded in three further fields of the
  record: the descriptors obtained and not yet closed, the dispatch threads alive, and
  the sequence of calls made.

  Each function is modelled as it runs from its first statement to its return, with no
  other thread writing the variables in between. A dispatch thread reads and writes the
  entries of its own pin only.
\<close>

subsection \<open>Data\<close>

text \<open>The messages printed with \<^verbatim>\<open>printf\<close>, one constructor per format string.\<close>

datatype msg =
    Msg_open_failed        \<comment> \<open>\<^verbatim>\<open>Error opening: ...\<close>\<close>
  | Msg_ioctl_failed       \<comment> \<open>\<^verbatim>\<open>Failed: ... ioctl get line ...\<close>\<close>
  | Msg_fcntl_failed       \<comment> \<open>\<^verbatim>\<open>Failed: ... fcntl set nonblock ...\<close>\<close>
  | Msg_init_failed        \<comment> \<open>\<^verbatim>\<open>Waiting for interrupt init failed\<close>\<close>
  | Msg_create_failed      \<comment> \<open>\<^verbatim>\<open>Failed to create thread\<close>\<close>
  | Msg_cancel_failed      \<comment> \<open>\<^verbatim>\<open>Failed: could not cancel thread\<close>\<close>

text \<open>
  The calls that leave the process, in the order they are made. A callback is a function
  pointer; it is identified by a number, and running it is the event \<open>Call\<close>.
\<close>

datatype event =
    Sleep int                \<comment> \<open>\<^verbatim>\<open>sleep(n)\<close>\<close>
  | Open int                 \<comment> \<open>\<^verbatim>\<open>open("/dev/gpiochip0")\<close> and its result\<close>
  | Ioctl int int int        \<comment> \<open>line-event request: chip descriptor, pin, mode\<close>
  | Fcntl int                \<comment> \<open>\<^verbatim>\<open>fcntl(fd, F_SETFL, flags | O_NONBLOCK)\<close>\<close>
  | Poll int int             \<comment> \<open>\<^verbatim>\<open>poll\<close> on a descriptor with a timeout\<close>
  | Read int                 \<comment> \<open>\<^verbatim>\<open>read\<close> of one event record from a descriptor\<close>
  | Close int                \<comment> \<open>\<^verbatim>\<open>close(fd)\<close>\<close>
  | Create nat               \<comment> \<open>successful \<^verbatim>\<open>pthread_create\<close>, the new thread\<close>
  | Cancel nat               \<comment> \<open>\<^verbatim>\<open>pthread_cancel\<close> on a thread handle\<close>
  | Call nat                 \<comment> \<open>the callback is run\<close>
  | Print msg

text \<open>
  The tables are declared with 32 entries and indexed by an \<^verbatim>\<open>int\<close> that the code
  never compares with a bound. A table is therefore modelled as the cells an index can
  address: cells 0 to 31 are the array, and a cell outside that range stands for the
  memory an out-of-range access would hit. C gives such an access no meaning, and in
  the compiled program it lands in a neighbouring table, where the model has a cell of
  its own: at such an index the model shows that the code makes the access and goes on,
  and nothing about the values. A null function pointer is \<open>None\<close>; a thread handle is
  a number, zero in static storage.
\<close>

record state =
  chip_FD :: int
  pin_FDs :: "int \<Rightarrow> int"
  isr_functions :: "int \<Rightarrow> nat option"
  isr_threads :: "int \<Rightarrow> nat"
  isr_modes :: "int \<Rightarrow> int"
  isr_function_called :: "int \<Rightarrow> int"
  pin_pass :: int
  open_fds :: "int list"              \<comment> \<open>descriptors obtained by the library, not closed\<close>
  threads :: "(nat \<times> int) list"      \<comment> \<open>live dispatch threads, each with the pin it captured\<close>
  trace :: "event list"

text \<open>
  Static initialisation: \<^verbatim>\<open>chip_FD = -1\<close>, \<^verbatim>\<open>pin_pass = -1\<close>,
  \<^verbatim>\<open>pin_FDs[32] = {-1}\<close> and \<^verbatim>\<open>isr_function_called[32] = {1}\<close>. An initialiser
  list shorter than the array sets the first entry only; the others are zero, like
  every table without an initialiser.
\<close>

definition initial_state :: state where
  "initial_state =
     \<lparr> chip_FD = -1,
       pin_FDs = (\<lambda>_. 0)(0 := -1),
       isr_functions = (\<lambda>_. None),
       isr_threads = (\<lambda>_. 0),
       isr_modes = (\<lambda>_. 0),
       isr_function_called = (\<lambda>_. 0)(0 := 1),
       pin_pass = -1,
       open_fds = [],
       threads = [],
       trace = [] \<rparr>"

definition emit :: "event \<Rightarrow> state \<Rightarrow> state" where
  "emit ev s = s\<lparr>trace := trace s @ [ev]\<rparr>"

text \<open>The callbacks run so far, oldest first.\<close>

fun calls_of :: "event list \<Rightarrow> nat list" where
  "calls_of [] = []"
| "calls_of (Call f # evs) = f # calls_of evs"
| "calls_of (_ # evs) = calls_of evs"

definition invocations :: "state \<Rightarrow> nat list" where
  "invocations s = calls_of (trace s)"

text \<open>The live dispatch threads that captured a given pin.\<close>

definition threads_of :: "int \<Rightarrow> state \<Rightarrow> nat list" where
  "threads_of pin s = map fst (filter (\<lambda>tp. snd tp = pin) (threads s))"

subsection \<open>What the operating system answers\<close>

text \<open>
  \<open>init_env\<close>: the answers during one run of \<^verbatim>\<open>interrupt_init\<close>. \<open>req_fd\<close> is the
  field \<^verbatim>\<open>req.fd\<close> the kernel fills in when the request succeeds.
\<close>

record init_env =
  open_ret :: int
  ioctl_ret :: int
  req_fd :: int
  setfl_ret :: int

text \<open>\<open>isr_env\<close>: the same for one run of \<^verbatim>\<open>jakestering_ISR\<close>.\<close>

record isr_env = init_env +
  create_ret :: int
  new_thread :: nat

text \<open>
  One turn of the dispatch loop: the result of \<^verbatim>\<open>poll\<close>, the result of \<^verbatim>\<open>read\<close>
  and the field \<^verbatim>\<open>id\<close> of the record read (an unsigned 32-bit number). The two
  last are looked at only when the call is made.
\<close>

record cycle =
  poll_ret :: int
  readret :: int
  event_id :: "32 word"

text \<open>
  \<^verbatim>\<open>sizeof(struct gpioevent_data)\<close> of \<^verbatim>\<open>linux/gpio.h\<close>: a 64-bit timestamp and a
  32-bit identifier, padded to 16 bytes.
\<close>

definition sizeof_event_data :: int where
  "sizeof_event_data = 16"

subsection \<open>The functions\<close>

text \<open>
  \<^verbatim>\<open>wait_for_interrupt\<close> (lines 298 to 338). The identifier is assigned to an
  \<^verbatim>\<open>int\<close>, which reads it as a signed number.
\<close>

definition wait_for_interrupt :: "int \<Rightarrow> int \<Rightarrow> cycle \<Rightarrow> state \<Rightarrow> int \<times> state" where
  "wait_for_interrupt pin ms c s =
     (let fd = pin_FDs s pin in
      if fd = -1 then (-2, s)
      else
        let s1 = emit (Poll fd ms) s;
            ret = poll_ret c
        in if ret \<le> 0 then (ret, s1)
           else
             let s2 = emit (Read (pin_FDs s1 pin)) s1
             in if readret c = sizeof_event_data then
                  (let ret = sint (event_id c)
                   in if ret = 1
                      then (ret, s2\<lparr>isr_function_called := (isr_function_called s2)(pin := 1)\<rparr>)
                      else (ret, s2))
                else (0, s2))"

text \<open>
  \<^verbatim>\<open>wait_for_interrupt_to_close\<close> (lines 340 to 360). \<open>cancel_ret\<close> is the result of
  \<^verbatim>\<open>pthread_cancel\<close>; an accepted cancellation ends the thread at its next wait, so
  the thread leaves the live threads. The result of \<^verbatim>\<open>close\<close> is not looked at.
  The model of the cancellation is that of a handle written by a successful
  \<^verbatim>\<open>pthread_create\<close> and cancelled from another thread. A handle that was never
  written (positive descriptor, failed \<^verbatim>\<open>pthread_create\<close>) and a thread that cancels
  itself here are outside the model: the first makes the C library fault, the second
  ends the thread before the resets. Neither arises when the descriptor is not positive,
  where no cancellation is asked for.
\<close>

definition wait_for_interrupt_to_close :: "int \<Rightarrow> int \<Rightarrow> state \<Rightarrow> int \<times> state" where
  "wait_for_interrupt_to_close pin cancel_ret s =
     (let s3 =
        (if pin_FDs s pin > 0 then
           let t = isr_threads s pin;
               s1 = emit (Cancel t) s;
               s2 = (if cancel_ret = 0
                     then s1\<lparr>threads := filter (\<lambda>tp. fst tp \<noteq> t) (threads s1)\<rparr>
                     else emit (Print Msg_cancel_failed) s1)
           in (emit (Close (pin_FDs s2 pin)) s2)
                \<lparr>open_fds := removeAll (pin_FDs s2 pin) (open_fds s2)\<rparr>
         else s)
      in (0, s3\<lparr>pin_FDs := (pin_FDs s3)(pin := -1),
                isr_functions := (isr_functions s3)(pin := None),
                isr_function_called := (isr_function_called s3)(pin := 1)\<rparr>))"

text \<open>
  \<^verbatim>\<open>interrupt_init\<close> (lines 362 to 418). The switch on the mode only fills the
  request and the text of a message, so the request is recorded with the mode itself.
  The flags read with \<^verbatim>\<open>F_GETFL\<close> only go into the \<^verbatim>\<open>F_SETFL\<close> call, which is
  the one recorded. \<open>Inl\<close> is the early return after a failed \<^verbatim>\<open>open\<close>.
\<close>

definition interrupt_init :: "int \<Rightarrow> int \<Rightarrow> init_env \<Rightarrow> state \<Rightarrow> int \<times> state" where
  "interrupt_init pin mode e s =
     (let s1 = emit (Sleep 1) s;
          opened =
            (if chip_FD s1 < 0 then
               let s2 = (emit (Open (open_ret e)) s1)
                          \<lparr>chip_FD := open_ret e,
                           open_fds := (if open_ret e < 0 then open_fds s1
                                        else open_fds s1 @ [open_ret e])\<rparr>
               in if chip_FD s2 < 0 then Inl (emit (Print Msg_open_failed) s2) else Inr s2
             else Inr s1)
      in case opened of
           Inl s2 \<Rightarrow> (-1, s2)
         | Inr s2 \<Rightarrow>
             let s3 = emit (Ioctl (chip_FD s2) pin mode) s2;
                 ret = ioctl_ret e
             in if ret \<noteq> 0 then (-1, emit (Print Msg_ioctl_failed) s3)
                else
                  let fd_line = req_fd e;
                      s4 = s3\<lparr>open_fds := open_fds s3 @ [fd_line]\<rparr>;
                      s5 = s4\<lparr>pin_FDs := (pin_FDs s4)(pin := fd_line)\<rparr>;
                      s6 = emit (Fcntl fd_line) s5;
                      ret = setfl_ret e
                  in if ret \<noteq> 0 then (-1, emit (Print Msg_fcntl_failed) s6)
                     else (0, s6))"

text \<open>
  The first statements of \<^verbatim>\<open>interrupt_handler\<close> (lines 265 to 270), run by the new
  thread \<open>t\<close>: it takes its pin from \<^verbatim>\<open>pin_pass\<close> and resets \<^verbatim>\<open>pin_pass\<close>. The
  call of \<^verbatim>\<open>piHiPri\<close> changes the scheduling priority only and its result is dropped.
\<close>

definition interrupt_handler_start :: "nat \<Rightarrow> state \<Rightarrow> int \<times> state" where
  "interrupt_handler_start t s =
     (let pin = pin_pass s
      in (pin, s\<lparr>pin_pass := -1, threads := threads s @ [(t, pin)]\<rparr>))"

text \<open>
  One turn of the loop of \<^verbatim>\<open>interrupt_handler\<close> (lines 274 to 290); the first
  component says whether the loop is left. The callback is user code that the library
  does not see; the model records that it ran.
\<close>

definition interrupt_handler_body :: "int \<Rightarrow> cycle \<Rightarrow> state \<Rightarrow> bool \<times> state" where
  "interrupt_handler_body pin c s =
     (case wait_for_interrupt pin (-1) c s of
        (ret, s1) \<Rightarrow>
          if ret > 0 then
            (case isr_functions s1 pin of
               None \<Rightarrow> (False, s1)
             | Some f \<Rightarrow>
                 if isr_function_called s1 pin \<noteq> 0
                 then (False, (emit (Call f) s1)
                                \<lparr>isr_function_called := (isr_function_called s1)(pin := 0)\<rparr>)
                 else (False, s1))
          else if ret < 0 then (True, s1)
          else (False, s1))"

text \<open>
  The loop runs for ever unless it is left; each turn waits for the outside world. It
  is run on the list of what the outside world answers, turn by turn: \<open>(True, s)\<close> when
  the loop was left in state \<open>s\<close>, \<open>(False, s)\<close> when the thread is still in the loop
  after the last answer.
\<close>

fun interrupt_handler_loop :: "int \<Rightarrow> cycle list \<Rightarrow> state \<Rightarrow> bool \<times> state" where
  "interrupt_handler_loop pin [] s = (False, s)"
| "interrupt_handler_loop pin (c # cs) s =
     (case interrupt_handler_body pin c s of
        (True, s1) \<Rightarrow> (True, s1)
      | (False, s1) \<Rightarrow> interrupt_handler_loop pin cs s1)"

text \<open>
  The rest of \<^verbatim>\<open>interrupt_handler\<close> (lines 272 to 295) for thread \<open>t\<close> with pin
  \<open>pin\<close>: the loop, then the teardown, then the thread returns and is gone.
\<close>

definition interrupt_handler :: "nat \<Rightarrow> int \<Rightarrow> cycle list \<Rightarrow> int \<Rightarrow> state \<Rightarrow> bool \<times> state" where
  "interrupt_handler t pin cs cancel_ret s =
     (case interrupt_handler_loop pin cs s of
        (False, s1) \<Rightarrow> (False, s1)
      | (True, s1) \<Rightarrow>
          (case wait_for_interrupt_to_close pin cancel_ret s1 of
             (_, s2) \<Rightarrow> (True, s2\<lparr>threads := filter (\<lambda>tp. fst tp \<noteq> t) (threads s2)\<rparr>)))"

text \<open>
  \<^verbatim>\<open>jakestering_ISR\<close> (lines 420 to 449). After a successful \<^verbatim>\<open>pthread_create\<close>
  the caller waits until \<^verbatim>\<open>pin_pass\<close> is \<open>-1\<close> again, that is until the new thread
  has run its first statements; these are therefore part of the call. The mutex is held
  around the hand-over and released before the return. The state returned is the state
  at the hand-over. From there the new thread goes on with \<^verbatim>\<open>interrupt_handler\<close>:
  it waits in \<^verbatim>\<open>poll\<close> when the pin has a descriptor, and when the descriptor entry
  is \<open>-1\<close> it leaves its loop at once and resets the entry. What holds of the entry
  after a registration is therefore stated together with the run of that thread.
\<close>

definition jakestering_ISR :: "int \<Rightarrow> int \<Rightarrow> nat option \<Rightarrow> isr_env \<Rightarrow> state \<Rightarrow> int \<times> state" where
  "jakestering_ISR pin mode function e s =
     (let s1 = s\<lparr>isr_functions := (isr_functions s)(pin := function)\<rparr>;
          s2 = s1\<lparr>isr_modes := (isr_modes s1)(pin := mode)\<rparr>;
          s3 = s2\<lparr>isr_function_called := (isr_function_called s2)(pin := 1)\<rparr>
      in case interrupt_init pin mode (init_env.truncate e) s3 of
           (r, s4) \<Rightarrow>
             let s5 = (if r < 0 then emit (Print Msg_init_failed) s4 else s4);
                 s6 = s5\<lparr>pin_pass := pin\<rparr>;
                 s7 = (if create_ret e = 0 then
                         snd (interrupt_handler_start (new_thread e)
                                ((emit (Create (new_thread e)) s6)
                                   \<lparr>isr_threads := (isr_threads s6)(pin := new_thread e)\<rparr>))
                       else emit (Print Msg_create_failed) s6)
             in (0, s7))"

subsection \<open>Kinds of loop turns\<close>

text \<open>
  A turn that decodes a valid edge event: \<^verbatim>\<open>poll\<close> reports readiness, the read fills
  the whole record and the identifier is 1. A turn without an event: \<^verbatim>\<open>poll\<close>
  returns 0, or the read does not fill the record.
\<close>

definition valid_event :: "cycle \<Rightarrow> bool" where
  "valid_event c \<longleftrightarrow> 0 < poll_ret c \<and> readret c = sizeof_event_data \<and> event_id c = 1"

definition no_event :: "cycle \<Rightarrow> bool" where
  "no_event c \<longleftrightarrow> poll_ret c = 0 \<or> (0 < poll_ret c \<and> readret c \<noteq> sizeof_event_data)"

subsection \<open>Example inputs\<close>

text \<open>
  An operating system where every call succeeds: the chip is descriptor 3, the line
  event descriptor is 4 and the new thread is thread 1.
\<close>

definition all_succeed :: isr_env where
  "all_succeed =
     \<lparr>open_ret = 3, ioctl_ret = 0, req_fd = 4, setfl_ret = 0, create_ret = 0, new_thread = 1\<rparr>"

text \<open>Pin 25 registered with mode 3 and callback 7, as \<^verbatim>\<open>main.c\<close> does.\<close>

definition registered_25 :: state where
  "registered_25 = snd (jakestering_ISR 25 3 (Some 7) all_succeed initial_state)"

definition rising_event :: cycle where
  "rising_event = \<lparr>poll_ret = 1, readret = 16, event_id = 1\<rparr>"

definition short_read :: cycle where
  "short_read = \<lparr>poll_ret = 1, readret = 8, event_id = 1\<rparr>"

text \<open>
  The kernel refuses the line request (the line is taken, say); the thread that is
  created all the same is thread 2.
\<close>

definition line_request_fails :: isr_env where
  "line_request_fails =
     \<lparr>open_ret = 3, ioctl_ret = -1, req_fd = 0, setfl_ret = 0, create_ret = 0, new_thread = 2\<rparr>"

text \<open>A second line request that is granted, with descriptor 5 and thread 2.\<close>

definition second_line :: isr_env where
  "second_line =
     \<lparr>open_ret = 3, ioctl_ret = 0, req_fd = 5, setfl_ret = 0, create_ret = 0, new_thread = 2\<rparr>"

text \<open>The line request is granted with descriptor 4, but \<^verbatim>\<open>F_SETFL\<close> fails.\<close>

definition nonblock_fails :: init_env where
  "nonblock_fails = \<lparr>open_ret = 3, ioctl_ret = 0, req_fd = 4, setfl_ret = -1\<rparr>"

section \<open>Basic facts\<close>

lemma emit_fields [simp]:
  "chip_FD (emit ev s) = chip_FD s"
  "pin_FDs (emit ev s) = pin_FDs s"
  "isr_functions (emit ev s) = isr_functions s"
  "isr_threads (emit ev s) = isr_threads s"
  "isr_modes (emit ev s) = isr_modes s"
  "isr_function_called (emit ev s) = isr_function_called s"
  "pin_pass (emit ev s) = pin_pass s"
  "open_fds (emit ev s) = open_fds s"
  "threads (emit ev s) = threads s"
  "trace (emit ev s) = trace s @ [ev]"
  by (simp_all add: emit_def)

lemma calls_of_append: "calls_of (xs @ ys) = calls_of xs @ calls_of ys"
  by (induction xs rule: calls_of.induct) simp_all

lemma invocations_emit: "invocations (emit ev s) = invocations s @ calls_of [ev]"
  by (simp add: invocations_def calls_of_append)

lemma invocations_update [simp]:
  "invocations (s\<lparr>isr_function_called := g\<rparr>) = invocations s"
  by (simp add: invocations_def)

lemma truncate_fields [simp]:
  "open_ret (init_env.truncate e) = open_ret e"
  "ioctl_ret (init_env.truncate e) = ioctl_ret e"
  "req_fd (init_env.truncate e) = req_fd e"
  "setfl_ret (init_env.truncate e) = setfl_ret e"
  by (simp_all add: init_env.truncate_def)

text \<open>The example registration, field by field.\<close>

lemma registered_25_fields:
  "chip_FD registered_25 = 3"
  "pin_FDs registered_25 25 = 4"
  "isr_functions registered_25 25 = Some 7"
  "isr_threads registered_25 25 = 1"
  "isr_modes registered_25 25 = 3"
  "isr_function_called registered_25 25 = 1"
  "pin_pass registered_25 = -1"
  "open_fds registered_25 = [3, 4]"
  "threads registered_25 = [(1, 25)]"
  "trace registered_25 = [Sleep 1, Open 3, Ioctl 3 25 3, Fcntl 4, Create 1]"
  by (simp_all add: registered_25_def jakestering_ISR_def interrupt_init_def
      interrupt_handler_start_def initial_state_def all_succeed_def emit_def Let_def)

subsection \<open>Registration and teardown, field by field\<close>


lemma interrupt_init_keeps:
  "isr_functions (snd (interrupt_init pin mode e s)) = isr_functions s"
  "isr_modes (snd (interrupt_init pin mode e s)) = isr_modes s"
  "isr_function_called (snd (interrupt_init pin mode e s)) = isr_function_called s"
  "isr_threads (snd (interrupt_init pin mode e s)) = isr_threads s"
  "threads (snd (interrupt_init pin mode e s)) = threads s"
  by (simp_all add: interrupt_init_def Let_def)

lemma interrupt_init_open_fds:
  "open_fds (snd (interrupt_init pin mode e s)) =
     open_fds s
     @ (if chip_FD s < 0 \<and> 0 \<le> open_ret e then [open_ret e] else [])
     @ (if (0 \<le> chip_FD s \<or> 0 \<le> open_ret e) \<and> ioctl_ret e = 0 then [req_fd e] else [])"
  by (simp add: interrupt_init_def Let_def)

lemma interrupt_init_pin_FDs:
  "pin_FDs (snd (interrupt_init pin mode e s)) =
     (if (0 \<le> chip_FD s \<or> 0 \<le> open_ret e) \<and> ioctl_ret e = 0
      then (pin_FDs s)(pin := req_fd e) else pin_FDs s)"
  by (simp add: interrupt_init_def Let_def)



lemma jakestering_ISR_snd:
  "snd (jakestering_ISR pin mode function e s) =
     (let s3 = s\<lparr>isr_functions := (isr_functions s)(pin := function),
                 isr_modes := (isr_modes s)(pin := mode),
                 isr_function_called := (isr_function_called s)(pin := 1)\<rparr>;
          r = fst (interrupt_init pin mode (init_env.truncate e) s3);
          s4 = snd (interrupt_init pin mode (init_env.truncate e) s3);
          s5 = (if r < 0 then emit (Print Msg_init_failed) s4 else s4)
      in if create_ret e = 0
         then (emit (Create (new_thread e)) s5)
                \<lparr>isr_threads := (isr_threads s5)(pin := new_thread e),
                 pin_pass := -1,
                 threads := threads s5 @ [(new_thread e, pin)]\<rparr>
         else emit (Print Msg_create_failed) (s5\<lparr>pin_pass := pin\<rparr>))"
  by (simp add: jakestering_ISR_def Let_def interrupt_handler_start_def emit_def split: prod.splits)

lemma jakestering_ISR_tables:
  "isr_functions (snd (jakestering_ISR pin mode function e s)) = (isr_functions s)(pin := function)"
  "isr_modes (snd (jakestering_ISR pin mode function e s)) = (isr_modes s)(pin := mode)"
  "isr_function_called (snd (jakestering_ISR pin mode function e s)) = (isr_function_called s)(pin := 1)"
  "isr_threads (snd (jakestering_ISR pin mode function e s)) =
     (if create_ret e = 0 then (isr_threads s)(pin := new_thread e) else isr_threads s)"
  "threads (snd (jakestering_ISR pin mode function e s)) =
     threads s @ (if create_ret e = 0 then [(new_thread e, pin)] else [])"
  by (simp_all add: jakestering_ISR_snd Let_def interrupt_init_keeps)

lemma jakestering_ISR_open_fds:
  "open_fds (snd (jakestering_ISR pin mode function e s)) =
     open_fds s
     @ (if chip_FD s < 0 \<and> 0 \<le> open_ret e then [open_ret e] else [])
     @ (if (0 \<le> chip_FD s \<or> 0 \<le> open_ret e) \<and> ioctl_ret e = 0 then [req_fd e] else [])"
  by (simp add: jakestering_ISR_snd Let_def interrupt_init_open_fds)

lemma jakestering_ISR_pin_FDs:
  "pin_FDs (snd (jakestering_ISR pin mode function e s)) =
     (if (0 \<le> chip_FD s \<or> 0 \<le> open_ret e) \<and> ioctl_ret e = 0
      then (pin_FDs s)(pin := req_fd e) else pin_FDs s)"
  by (simp add: jakestering_ISR_snd Let_def interrupt_init_pin_FDs)


lemma close_tables:
  "pin_FDs (snd (wait_for_interrupt_to_close pin cancel_ret s)) = (pin_FDs s)(pin := -1)"
  "isr_functions (snd (wait_for_interrupt_to_close pin cancel_ret s)) = (isr_functions s)(pin := None)"
  "isr_function_called (snd (wait_for_interrupt_to_close pin cancel_ret s)) = (isr_function_called s)(pin := 1)"
  "isr_modes (snd (wait_for_interrupt_to_close pin cancel_ret s)) = isr_modes s"
  "isr_threads (snd (wait_for_interrupt_to_close pin cancel_ret s)) = isr_threads s"
  "fst (wait_for_interrupt_to_close pin cancel_ret s) = 0"
  by (simp_all add: wait_for_interrupt_to_close_def Let_def)

lemma close_resources:
  "open_fds (snd (wait_for_interrupt_to_close pin cancel_ret s)) =
     (if 0 < pin_FDs s pin then removeAll (pin_FDs s pin) (open_fds s) else open_fds s)"
  "threads (snd (wait_for_interrupt_to_close pin cancel_ret s)) =
     (if 0 < pin_FDs s pin \<and> cancel_ret = 0
      then filter (\<lambda>tp. fst tp \<noteq> isr_threads s pin) (threads s) else threads s)"
  by (simp_all add: wait_for_interrupt_to_close_def Let_def)




subsection \<open>The dispatch loop, turn by turn\<close>

lemma body_valid_event:
  assumes "isr_functions s pin = Some f" and "pin_FDs s pin \<noteq> -1" and "valid_event c"
  shows "interrupt_handler_body pin c s =
           (False, (emit (Call f) (emit (Read (pin_FDs s pin)) (emit (Poll (pin_FDs s pin) (-1)) s)))
                     \<lparr>isr_function_called := (isr_function_called s)(pin := 0)\<rparr>)"
  using assms
  by (simp add: interrupt_handler_body_def wait_for_interrupt_def valid_event_def Let_def emit_def)

lemma body_no_event:
  assumes "pin_FDs s pin \<noteq> -1" and "no_event c"
  shows "\<exists>s1. interrupt_handler_body pin c s = (False, s1)
           \<and> isr_functions s1 = isr_functions s \<and> pin_FDs s1 = pin_FDs s
           \<and> isr_function_called s1 = isr_function_called s
           \<and> invocations s1 = invocations s"
  using assms
  by (auto simp add: interrupt_handler_body_def wait_for_interrupt_def no_event_def Let_def
      invocations_emit)

lemma loop_events:
  assumes "isr_functions s pin = Some f" and "pin_FDs s pin \<noteq> -1"
    and "\<forall>c \<in> set cs. valid_event c \<or> no_event c"
  shows "\<exists>s'. interrupt_handler_loop pin cs s = (False, s')
           \<and> isr_functions s' = isr_functions s \<and> pin_FDs s' = pin_FDs s
           \<and> invocations s' = invocations s @ replicate (length (filter valid_event cs)) f
           \<and> isr_function_called s' pin =
               (if filter valid_event cs = [] then isr_function_called s pin else 0)"
  using assms
proof (induction cs arbitrary: s)
  case Nil
  then show ?case by simp
next
  case (Cons c cs)
  show ?case
  proof (cases "valid_event c")
    case True
    define s1 where
      "s1 = (emit (Call f) (emit (Read (pin_FDs s pin)) (emit (Poll (pin_FDs s pin) (-1)) s)))
               \<lparr>isr_function_called := (isr_function_called s)(pin := 0)\<rparr>"
    have b: "interrupt_handler_body pin c s = (False, s1)"
      unfolding s1_def using Cons.prems(1,2) True by (rule body_valid_event)
    have s1: "isr_functions s1 = isr_functions s" "pin_FDs s1 = pin_FDs s"
      "invocations s1 = invocations s @ [f]" "isr_function_called s1 pin = 0"
      by (simp_all add: s1_def invocations_emit)
    from Cons.prems s1 have "isr_functions s1 pin = Some f" "pin_FDs s1 pin \<noteq> -1"
      "\<forall>c \<in> set cs. valid_event c \<or> no_event c" by simp_all
    from Cons.IH [OF this] obtain s' where
      "interrupt_handler_loop pin cs s1 = (False, s')"
      "isr_functions s' = isr_functions s1" "pin_FDs s' = pin_FDs s1"
      "invocations s' = invocations s1 @ replicate (length (filter valid_event cs)) f"
      "isr_function_called s' pin =
         (if filter valid_event cs = [] then isr_function_called s1 pin else 0)"
      by blast
    with b s1 True show ?thesis by (simp add: replicate_app_Cons_same)
  next
    case False
    with Cons.prems have ne: "no_event c" by simp
    from body_no_event [OF Cons.prems(2) ne] obtain s1 where
      b: "interrupt_handler_body pin c s = (False, s1)" and
      s1: "isr_functions s1 = isr_functions s" "pin_FDs s1 = pin_FDs s"
      "isr_function_called s1 = isr_function_called s" "invocations s1 = invocations s"
      by blast
    from Cons.prems s1 have "isr_functions s1 pin = Some f" "pin_FDs s1 pin \<noteq> -1"
      "\<forall>c \<in> set cs. valid_event c \<or> no_event c" by simp_all
    from Cons.IH [OF this] obtain s' where
      "interrupt_handler_loop pin cs s1 = (False, s')"
      "isr_functions s' = isr_functions s1" "pin_FDs s' = pin_FDs s1"
      "invocations s' = invocations s1 @ replicate (length (filter valid_event cs)) f"
      "isr_function_called s' pin =
         (if filter valid_event cs = [] then isr_function_called s1 pin else 0)"
      by blast
    with b s1 False show ?thesis by simp
  qed
qed

lemma body_short:
  assumes "readret c < sizeof_event_data"
  shows "invocations (snd (interrupt_handler_body pin c s)) = invocations s"
  using assms
  by (simp add: interrupt_handler_body_def wait_for_interrupt_def Let_def invocations_emit)

lemma loop_short:
  assumes "\<forall>c \<in> set cs. readret c < sizeof_event_data"
  shows "invocations (snd (interrupt_handler_loop pin cs s)) = invocations s"
  using assms
proof (induction cs arbitrary: s)
  case Nil
  then show ?case by simp
next
  case (Cons c cs)
  obtain b s1 where b: "interrupt_handler_body pin c s = (b, s1)"
    by (cases "interrupt_handler_body pin c s")
  from Cons.prems have "readret c < sizeof_event_data" by simp
  then have inv: "invocations s1 = invocations s"
    using body_short [of c pin s] b by simp
  show ?case
  proof (cases b)
    case True
    with b inv show ?thesis by simp
  next
    case False
    with b inv Cons show ?thesis by simp
  qed
qed

section \<open>The claims\<close>

text \<open>
  C1. For a pin with a registered callback and a descriptor, a turn of the dispatch
  loop that decodes a valid edge event (full record, identifier 1) makes
  \<^verbatim>\<open>wait_for_interrupt\<close> return 1 with the armed flag of the pin set to 1; the loop
  body then polls, reads, runs the callback exactly once, sets the armed flag to 0 and
  stays in the loop. Over any sequence of turns that are valid events or non-events the
  thread stays in the loop and the callback has run once per valid event, in order: two
  valid events in a row are two runs. The armed flag is 0 from the first valid event on.
\<close>

theorem one_callback_per_valid_event:
  assumes "isr_functions s pin = Some f" and "pin_FDs s pin \<noteq> -1"
  shows "(valid_event c \<longrightarrow>
            fst (wait_for_interrupt pin (-1) c s) = 1
          \<and> isr_function_called (snd (wait_for_interrupt pin (-1) c s)) pin = 1
          \<and> fst (interrupt_handler_body pin c s) = False
          \<and> trace (snd (interrupt_handler_body pin c s)) =
              trace s @ [Poll (pin_FDs s pin) (-1), Read (pin_FDs s pin), Call f]
          \<and> isr_function_called (snd (interrupt_handler_body pin c s)) pin = 0)
       \<and> ((\<forall>c' \<in> set cs. valid_event c' \<or> no_event c') \<longrightarrow>
            fst (interrupt_handler_loop pin cs s) = False
          \<and> invocations (snd (interrupt_handler_loop pin cs s)) =
              invocations s @ replicate (length (filter valid_event cs)) f
          \<and> isr_function_called (snd (interrupt_handler_loop pin cs s)) pin =
              (if filter valid_event cs = [] then isr_function_called s pin else 0))"
proof (intro conjI impI)
  assume v: "valid_event c"
  from v assms show "fst (wait_for_interrupt pin (-1) c s) = 1"
    and "isr_function_called (snd (wait_for_interrupt pin (-1) c s)) pin = 1"
    by (simp_all add: wait_for_interrupt_def valid_event_def Let_def)
  from body_valid_event [OF assms v]
  show "fst (interrupt_handler_body pin c s) = False"
    and "trace (snd (interrupt_handler_body pin c s)) =
           trace s @ [Poll (pin_FDs s pin) (-1), Read (pin_FDs s pin), Call f]"
    and "isr_function_called (snd (interrupt_handler_body pin c s)) pin = 0"
    by simp_all
next
  assume "\<forall>c' \<in> set cs. valid_event c' \<or> no_event c'"
  from loop_events [OF assms this] obtain s' where
    "interrupt_handler_loop pin cs s = (False, s')"
    "invocations s' = invocations s @ replicate (length (filter valid_event cs)) f"
    "isr_function_called s' pin =
       (if filter valid_event cs = [] then isr_function_called s pin else 0)"
    by blast
  then show "fst (interrupt_handler_loop pin cs s) = False"
    and "invocations (snd (interrupt_handler_loop pin cs s)) =
           invocations s @ replicate (length (filter valid_event cs)) f"
    and "isr_function_called (snd (interrupt_handler_loop pin cs s)) pin =
           (if filter valid_event cs = [] then isr_function_called s pin else 0)"
    by simp_all
qed

theorem one_callback_per_valid_event_witness:
  "isr_functions registered_25 25 = Some 7 \<and> pin_FDs registered_25 25 \<noteq> -1
   \<and> valid_event rising_event \<and> no_event short_read
   \<and> trace (snd (interrupt_handler_body 25 rising_event registered_25)) =
       [Sleep 1, Open 3, Ioctl 3 25 3, Fcntl 4, Create 1, Poll 4 (-1), Read 4, Call 7]
   \<and> isr_function_called (snd (interrupt_handler_body 25 rising_event registered_25)) 25 = 0
   \<and> invocations
        (snd (interrupt_handler_loop 25 [rising_event, short_read, rising_event] registered_25))
       = [7, 7]"
proof -
  have h1: "isr_functions registered_25 25 = Some 7"
    and h2: "pin_FDs registered_25 25 \<noteq> -1"
    by (simp_all add: registered_25_fields)
  have v: "valid_event rising_event" and n: "no_event short_read"
    by (simp_all add: valid_event_def no_event_def rising_event_def short_read_def
        sizeof_event_data_def)
  have f: "filter valid_event [rising_event, short_read, rising_event]
             = [rising_event, rising_event]"
    by (simp add: valid_event_def rising_event_def short_read_def sizeof_event_data_def)
  have i: "invocations registered_25 = []"
    by (simp add: invocations_def registered_25_fields)
  from one_callback_per_valid_event [OF h1 h2, of rising_event
      "[rising_event, short_read, rising_event]"] h1 h2 v n f i
  show ?thesis by (simp add: registered_25_fields numeral_2_eq_2)
qed




text \<open>
  C3 as stated does not hold. Pin 25 is registered, with descriptor 4 and thread 1, and
  registered again. If the kernel refuses the second line request, two threads are alive
  for pin 25 on the same descriptor 4. If the kernel grants it, two threads are alive
  for pin 25 and the descriptors 4 and 5 are both open, the table naming only 5.
\<close>

theorem second_registration_adds_thread:
  "threads_of 25 (snd (jakestering_ISR 25 3 (Some 8) line_request_fails registered_25)) = [1, 2]
   \<and> pin_FDs (snd (jakestering_ISR 25 3 (Some 8) line_request_fails registered_25)) 25 = 4
   \<and> threads_of 25 (snd (jakestering_ISR 25 3 (Some 8) second_line registered_25)) = [1, 2]
   \<and> open_fds (snd (jakestering_ISR 25 3 (Some 8) second_line registered_25)) = [3, 4, 5]
   \<and> pin_FDs (snd (jakestering_ISR 25 3 (Some 8) second_line registered_25)) 25 = 5"
  by (simp add: threads_of_def jakestering_ISR_tables jakestering_ISR_open_fds
      jakestering_ISR_pin_FDs registered_25_fields line_request_fails_def second_line_def)

text \<open>
  C3, amended. \<^verbatim>\<open>jakestering_ISR\<close> tears nothing down, whatever the state of the pin:
  the threads alive for the pin are those alive before, plus the new one when
  \<^verbatim>\<open>pthread_create\<close> succeeds; the open descriptors are those open before, plus the
  chip when it is opened, plus the new line descriptor when the request succeeds. The
  tables name the latest descriptor and the latest thread only.
\<close>

theorem registration_never_tears_down:
  "threads_of pin (snd (jakestering_ISR pin mode function e s)) =
     threads_of pin s @ (if create_ret e = 0 then [new_thread e] else [])
   \<and> open_fds (snd (jakestering_ISR pin mode function e s)) =
       open_fds s
       @ (if chip_FD s < 0 \<and> 0 \<le> open_ret e then [open_ret e] else [])
       @ (if (0 \<le> chip_FD s \<or> 0 \<le> open_ret e) \<and> ioctl_ret e = 0 then [req_fd e] else [])
   \<and> pin_FDs (snd (jakestering_ISR pin mode function e s)) pin =
       (if (0 \<le> chip_FD s \<or> 0 \<le> open_ret e) \<and> ioctl_ret e = 0 then req_fd e else pin_FDs s pin)
   \<and> isr_threads (snd (jakestering_ISR pin mode function e s)) pin =
       (if create_ret e = 0 then new_thread e else isr_threads s pin)"
  by (simp add: threads_of_def jakestering_ISR_tables jakestering_ISR_open_fds
      jakestering_ISR_pin_FDs)

theorem registration_never_tears_down_witness:
  "threads_of 25 (snd (jakestering_ISR 25 3 (Some 8) second_line registered_25)) = [1, 2]
   \<and> open_fds (snd (jakestering_ISR 25 3 (Some 8) second_line registered_25)) = [3, 4, 5]
   \<and> isr_threads (snd (jakestering_ISR 25 3 (Some 8) second_line registered_25)) 25 = 2"
  using registration_never_tears_down [of 25 3 "Some 8" second_line registered_25]
  by (simp add: second_line_def registered_25_fields threads_of_def)

text \<open>
  C4 as stated does not hold. On the initial state, with the line request for pin 25
  granted as descriptor 4 and \<^verbatim>\<open>F_SETFL\<close> failing, \<^verbatim>\<open>interrupt_init\<close> returns
  \<open>-1\<close> while descriptor 4 is still open and still stored in \<^verbatim>\<open>pin_FDs[25]\<close>;
  no \<^verbatim>\<open>close\<close> is made.
\<close>

theorem nonblock_failure_leaves_descriptor_open:
  "fst (interrupt_init 25 3 nonblock_fails initial_state) = -1
   \<and> open_fds (snd (interrupt_init 25 3 nonblock_fails initial_state)) = [3, 4]
   \<and> pin_FDs (snd (interrupt_init 25 3 nonblock_fails initial_state)) 25 = 4
   \<and> trace (snd (interrupt_init 25 3 nonblock_fails initial_state)) =
       [Sleep 1, Open 3, Ioctl 3 25 3, Fcntl 4, Print Msg_fcntl_failed]"
  by (simp add: interrupt_init_def initial_state_def nonblock_fails_def emit_def Let_def)

text \<open>
  C4, amended. When the chip is open or opens, the line request succeeds and
  \<^verbatim>\<open>F_SETFL\<close> fails, \<^verbatim>\<open>interrupt_init\<close> prints the failure and returns \<open>-1\<close>.
  The new descriptor is not closed: it stays among the open descriptors and stays stored
  in \<^verbatim>\<open>pin_FDs[pin]\<close>. The calls made are the sleep, the \<^verbatim>\<open>open\<close> if the chip
  was not open, the request, the \<^verbatim>\<open>fcntl\<close> and the message.
\<close>

theorem nonblock_failure_keeps_descriptor:
  assumes "0 \<le> chip_FD s \<or> 0 \<le> open_ret e" and "ioctl_ret e = 0" and "setfl_ret e \<noteq> 0"
  shows "fst (interrupt_init pin mode e s) = -1
       \<and> pin_FDs (snd (interrupt_init pin mode e s)) pin = req_fd e
       \<and> open_fds (snd (interrupt_init pin mode e s)) =
           open_fds s @ (if chip_FD s < 0 then [open_ret e] else []) @ [req_fd e]
       \<and> trace (snd (interrupt_init pin mode e s)) =
           trace s @ [Sleep 1] @ (if chip_FD s < 0 then [Open (open_ret e)] else [])
           @ [Ioctl (if chip_FD s < 0 then open_ret e else chip_FD s) pin mode,
              Fcntl (req_fd e), Print Msg_fcntl_failed]"
  using assms
  by (auto simp add: interrupt_init_def Let_def)

theorem nonblock_failure_keeps_descriptor_witness:
  "(0 \<le> chip_FD initial_state \<or> 0 \<le> open_ret nonblock_fails)
   \<and> ioctl_ret nonblock_fails = 0 \<and> setfl_ret nonblock_fails \<noteq> 0
   \<and> fst (interrupt_init 25 3 nonblock_fails initial_state) = -1
   \<and> pin_FDs (snd (interrupt_init 25 3 nonblock_fails initial_state)) 25 = 4
   \<and> open_fds (snd (interrupt_init 25 3 nonblock_fails initial_state)) = [3, 4]"
proof -
  have h: "0 \<le> chip_FD initial_state \<or> 0 \<le> open_ret nonblock_fails"
    "ioctl_ret nonblock_fails = 0" "setfl_ret nonblock_fails \<noteq> 0"
    by (simp_all add: nonblock_fails_def)
  have v: "req_fd nonblock_fails = 4" "open_ret nonblock_fails = 3"
    "chip_FD initial_state < 0" "open_fds initial_state = []"
    by (simp_all add: nonblock_fails_def initial_state_def)
  from nonblock_failure_keeps_descriptor [OF h, of 25 3] h v show ?thesis by simp
qed

text \<open>
  C5 as stated does not hold. Pin 25 was never registered in the initial state (its
  descriptor entry is 0). \<^verbatim>\<open>wait_for_interrupt_to_close\<close> returns 0 for it, the
  value it also returns for the registered pin, and changes the state: the descriptor
  entry becomes \<open>-1\<close> and the armed flag becomes 1.
\<close>

theorem close_unregistered_pin_changes_state:
  "pin_FDs initial_state 25 = 0 \<and> isr_function_called initial_state 25 = 0
   \<and> fst (wait_for_interrupt_to_close 25 0 initial_state) = 0
   \<and> fst (wait_for_interrupt_to_close 25 0 registered_25) = 0
   \<and> pin_FDs (snd (wait_for_interrupt_to_close 25 0 initial_state)) 25 = -1
   \<and> isr_function_called (snd (wait_for_interrupt_to_close 25 0 initial_state)) 25 = 1
   \<and> snd (wait_for_interrupt_to_close 25 0 initial_state) \<noteq> initial_state"
proof -
  have a: "pin_FDs initial_state 25 = 0" "isr_function_called initial_state 25 = 0"
    by (simp_all add: initial_state_def)
  have b: "pin_FDs (snd (wait_for_interrupt_to_close 25 0 initial_state)) 25 = -1"
    "isr_function_called (snd (wait_for_interrupt_to_close 25 0 initial_state)) 25 = 1"
    "fst (wait_for_interrupt_to_close 25 0 initial_state) = 0"
    "fst (wait_for_interrupt_to_close 25 0 registered_25) = 0"
    by (simp_all add: close_tables)
  from a b have "snd (wait_for_interrupt_to_close 25 0 initial_state) \<noteq> initial_state"
    by auto
  with a b show ?thesis by simp
qed

text \<open>
  C5, amended. For a pin whose stored descriptor is not positive,
  \<^verbatim>\<open>wait_for_interrupt_to_close\<close> cancels no thread, closes no descriptor and makes
  no call at all, but it still writes the reset values into the entry of the pin
  (descriptor \<open>-1\<close>, no callback, armed flag 1) and returns 0. The state is left as it
  was exactly when the entry already holds these values.
\<close>

theorem close_without_descriptor:
  assumes "pin_FDs s pin \<le> 0"
  shows "wait_for_interrupt_to_close pin cancel_ret s =
           (0, s\<lparr>pin_FDs := (pin_FDs s)(pin := -1),
                 isr_functions := (isr_functions s)(pin := None),
                 isr_function_called := (isr_function_called s)(pin := 1)\<rparr>)
       \<and> threads (snd (wait_for_interrupt_to_close pin cancel_ret s)) = threads s
       \<and> open_fds (snd (wait_for_interrupt_to_close pin cancel_ret s)) = open_fds s
       \<and> trace (snd (wait_for_interrupt_to_close pin cancel_ret s)) = trace s
       \<and> (pin_FDs s pin = -1 \<and> isr_functions s pin = None \<and> isr_function_called s pin = 1
            \<longrightarrow> snd (wait_for_interrupt_to_close pin cancel_ret s) = s)"
  using assms
  by (auto simp add: wait_for_interrupt_to_close_def Let_def fun_upd_idem)

theorem close_without_descriptor_witness:
  "pin_FDs initial_state 25 \<le> 0
   \<and> fst (wait_for_interrupt_to_close 25 0 initial_state) = 0
   \<and> threads (snd (wait_for_interrupt_to_close 25 0 initial_state)) = []
   \<and> open_fds (snd (wait_for_interrupt_to_close 25 0 initial_state)) = []
   \<and> trace (snd (wait_for_interrupt_to_close 25 0 initial_state)) = []
   \<and> pin_FDs initial_state 0 = -1 \<and> isr_functions initial_state 0 = None
   \<and> isr_function_called initial_state 0 = 1
   \<and> snd (wait_for_interrupt_to_close 0 0 initial_state) = initial_state"
proof -
  have h: "pin_FDs initial_state 25 \<le> 0" and h0: "pin_FDs initial_state 0 \<le> 0"
    by (simp_all add: initial_state_def)
  have v: "pin_FDs initial_state 0 = -1" "isr_functions initial_state 0 = None"
    "isr_function_called initial_state 0 = 1" "threads initial_state = []"
    "open_fds initial_state = []" "trace initial_state = []"
    by (simp_all add: initial_state_def)
  note t25 = close_without_descriptor [OF h, of 0] and t0 = close_without_descriptor [OF h0, of 0]
  from t25 have a: "fst (wait_for_interrupt_to_close 25 0 initial_state) = 0"
    by simp
  from t25 have b: "threads (snd (wait_for_interrupt_to_close 25 0 initial_state))
        = threads initial_state"
    "open_fds (snd (wait_for_interrupt_to_close 25 0 initial_state)) = open_fds initial_state"
    "trace (snd (wait_for_interrupt_to_close 25 0 initial_state)) = trace initial_state"
    by blast+
  from t0 v have c: "snd (wait_for_interrupt_to_close 0 0 initial_state) = initial_state"
    by blast
  from a b c h v show ?thesis by simp
qed

text \<open>
  C6. When the read returns fewer bytes than the record size, \<^verbatim>\<open>wait_for_interrupt\<close>
  returns a value that is not positive and the turn of the loop runs no callback. When
  the read takes place (the descriptor is not \<open>-1\<close> and \<^verbatim>\<open>poll\<close> reported
  readiness), \<^verbatim>\<open>wait_for_interrupt\<close> returns 0 having changed nothing but the trace
  of calls, and the loop goes on. Over any number of such turns no callback runs.
\<close>

theorem short_read_never_calls:
  assumes "readret c < sizeof_event_data"
  shows "fst (wait_for_interrupt pin ms c s) \<le> 0
       \<and> invocations (snd (interrupt_handler_body pin c s)) = invocations s
       \<and> (pin_FDs s pin \<noteq> -1 \<and> 0 < poll_ret c \<longrightarrow>
            wait_for_interrupt pin ms c s =
              (0, emit (Read (pin_FDs s pin)) (emit (Poll (pin_FDs s pin) ms) s))
          \<and> interrupt_handler_body pin c s =
              (False, emit (Read (pin_FDs s pin)) (emit (Poll (pin_FDs s pin) (-1)) s)))
       \<and> ((\<forall>c' \<in> set cs. readret c' < sizeof_event_data) \<longrightarrow>
            invocations (snd (interrupt_handler_loop pin cs s)) = invocations s)"
  using assms loop_short [of cs pin s]
  by (simp add: interrupt_handler_body_def wait_for_interrupt_def Let_def invocations_emit)

theorem short_read_never_calls_witness:
  "readret short_read < sizeof_event_data
   \<and> pin_FDs registered_25 25 \<noteq> -1 \<and> 0 < poll_ret short_read
   \<and> fst (wait_for_interrupt 25 (-1) short_read registered_25) = 0
   \<and> fst (interrupt_handler_body 25 short_read registered_25) = False
   \<and> invocations (snd (interrupt_handler_body 25 short_read registered_25)) = []
   \<and> invocations (snd (interrupt_handler_loop 25 [short_read, short_read] registered_25)) = []"
proof -
  have h: "readret short_read < sizeof_event_data" and p: "0 < poll_ret short_read"
    by (simp_all add: short_read_def sizeof_event_data_def)
  have d: "pin_FDs registered_25 25 \<noteq> -1"
    by (simp add: registered_25_fields)
  have a: "\<forall>c' \<in> set [short_read, short_read]. readret c' < sizeof_event_data"
    using h by simp
  have i: "invocations registered_25 = []"
    by (simp add: invocations_def registered_25_fields)
  note t = short_read_never_calls [OF h, of 25 "-1" registered_25 "[short_read, short_read]"]
  from t d p have "fst (wait_for_interrupt 25 (-1) short_read registered_25) = 0"
    and "fst (interrupt_handler_body 25 short_read registered_25) = False"
    by simp_all
  moreover from t
  have "invocations (snd (interrupt_handler_body 25 short_read registered_25))
          = invocations registered_25"
    by blast
  then have "invocations (snd (interrupt_handler_body 25 short_read registered_25)) = []"
    by (simp only: i)
  moreover from t a
  have "invocations (snd (interrupt_handler_loop 25 [short_read, short_read] registered_25))
          = invocations registered_25"
    by blast
  then have
    "invocations (snd (interrupt_handler_loop 25 [short_read, short_read] registered_25)) = []"
    by (simp only: i)
  ultimately show ?thesis using h p d a by blast
qed




text \<open>
  C8 as stated does not hold. Before pin 25 is registered its descriptor entry, armed
  flag, mode and thread handle are all 0. After registration and teardown the descriptor
  entry is \<open>-1\<close>, the armed flag is 1, the mode is still 3 and the thread handle is
  still 1: this is not the state before registration, and the handle is not cleared.
\<close>

theorem register_then_close_differs_from_before:
  "pin_FDs initial_state 25 = 0
   \<and> pin_FDs (snd (wait_for_interrupt_to_close 25 0 registered_25)) 25 = -1
   \<and> isr_function_called initial_state 25 = 0
   \<and> isr_function_called (snd (wait_for_interrupt_to_close 25 0 registered_25)) 25 = 1
   \<and> isr_modes initial_state 25 = 0
   \<and> isr_modes (snd (wait_for_interrupt_to_close 25 0 registered_25)) 25 = 3
   \<and> isr_threads initial_state 25 = 0
   \<and> isr_threads (snd (wait_for_interrupt_to_close 25 0 registered_25)) 25 = 1"
  by (simp add: close_tables registered_25_fields) (simp add: initial_state_def)

text \<open>
  C8, amended. Let the pin be one of 0 to 31, and let registration obtain a positive
  line descriptor and create its thread. Then \<^verbatim>\<open>jakestering_ISR\<close> followed at once
  by \<^verbatim>\<open>wait_for_interrupt_to_close\<close> asks for the cancellation of that thread, closes
  that descriptor and leaves the descriptor entry of the pin at \<open>-1\<close>, its callback
  unset and its armed flag at 1. The mode entry keeps the mode and the thread entry keeps
  the handle of the thread: neither is cleared. The thread is no longer alive when the
  cancellation is accepted.
\<close>

theorem register_then_close_resets_entry:
  assumes "0 \<le> pin" and "pin \<le> 31"
    and "0 \<le> chip_FD s \<or> 0 \<le> open_ret e" and "ioctl_ret e = 0" and "0 < req_fd e"
    and "create_ret e = 0"
  shows "fst (wait_for_interrupt_to_close pin cancel_ret
                   (snd (jakestering_ISR pin mode function e s))) = 0
   \<and> pin_FDs (snd (wait_for_interrupt_to_close pin cancel_ret
                   (snd (jakestering_ISR pin mode function e s)))) pin = -1
   \<and> isr_functions (snd (wait_for_interrupt_to_close pin cancel_ret
                   (snd (jakestering_ISR pin mode function e s)))) pin = None
   \<and> isr_function_called (snd (wait_for_interrupt_to_close pin cancel_ret
                   (snd (jakestering_ISR pin mode function e s)))) pin = 1
   \<and> isr_modes (snd (wait_for_interrupt_to_close pin cancel_ret
                   (snd (jakestering_ISR pin mode function e s)))) pin = mode
   \<and> isr_threads (snd (wait_for_interrupt_to_close pin cancel_ret
                   (snd (jakestering_ISR pin mode function e s)))) pin = new_thread e
   \<and> trace (snd (wait_for_interrupt_to_close pin cancel_ret
                   (snd (jakestering_ISR pin mode function e s)))) =
       trace (snd (jakestering_ISR pin mode function e s))
       @ Cancel (new_thread e)
       # (if cancel_ret = 0 then [] else [Print Msg_cancel_failed]) @ [Close (req_fd e)]
   \<and> req_fd e \<notin> set (open_fds (snd (wait_for_interrupt_to_close pin cancel_ret
                   (snd (jakestering_ISR pin mode function e s)))))
   \<and> (cancel_ret = 0 \<longrightarrow>
        new_thread e \<notin> set (threads_of pin (snd (wait_for_interrupt_to_close pin cancel_ret
                   (snd (jakestering_ISR pin mode function e s))))))"
proof -
  let ?s1 = "snd (jakestering_ISR pin mode function e s)"
  have fd: "pin_FDs ?s1 pin = req_fd e" and th: "isr_threads ?s1 pin = new_thread e"
    using assms by (simp_all add: jakestering_ISR_pin_FDs jakestering_ISR_tables)
  have tr: "trace (snd (wait_for_interrupt_to_close pin cancel_ret ?s1)) =
       trace ?s1 @ Cancel (new_thread e)
       # (if cancel_ret = 0 then [] else [Print Msg_cancel_failed]) @ [Close (req_fd e)]"
    using fd th assms(5) by (simp add: wait_for_interrupt_to_close_def Let_def)
  show ?thesis
    using fd th assms tr
    by (auto simp add: close_tables close_resources jakestering_ISR_tables threads_of_def)
qed

theorem register_then_close_resets_entry_witness:
  "(0 \<le> chip_FD initial_state \<or> 0 \<le> open_ret all_succeed)
   \<and> ioctl_ret all_succeed = 0 \<and> 0 < req_fd all_succeed \<and> create_ret all_succeed = 0
   \<and> pin_FDs (snd (wait_for_interrupt_to_close 25 0
                   (snd (jakestering_ISR 25 3 (Some 7) all_succeed initial_state)))) 25 = -1
   \<and> isr_functions (snd (wait_for_interrupt_to_close 25 0
                   (snd (jakestering_ISR 25 3 (Some 7) all_succeed initial_state)))) 25 = None
   \<and> isr_threads (snd (wait_for_interrupt_to_close 25 0
                   (snd (jakestering_ISR 25 3 (Some 7) all_succeed initial_state)))) 25 = 1
   \<and> isr_modes (snd (wait_for_interrupt_to_close 25 0
                   (snd (jakestering_ISR 25 3 (Some 7) all_succeed initial_state)))) 25 = 3
   \<and> 4 \<notin> set (open_fds (snd (wait_for_interrupt_to_close 25 0
                   (snd (jakestering_ISR 25 3 (Some 7) all_succeed initial_state)))))
   \<and> 1 \<notin> set (threads_of 25 (snd (wait_for_interrupt_to_close 25 0
                   (snd (jakestering_ISR 25 3 (Some 7) all_succeed initial_state)))))"
proof -
  have r: "(0::int) \<le> 25" "(25::int) \<le> 31" by simp_all
  have h: "0 \<le> chip_FD initial_state \<or> 0 \<le> open_ret all_succeed"
    "ioctl_ret all_succeed = 0" "0 < req_fd all_succeed" "create_ret all_succeed = 0"
    by (simp_all add: all_succeed_def)
  have v: "req_fd all_succeed = 4" "new_thread all_succeed = 1"
    by (simp_all add: all_succeed_def)
  note t = register_then_close_resets_entry [OF r h, of 0 3 "Some 7"]
  from t h v show ?thesis by simp
qed

text \<open>
  C9. In the initial state index 0 alone carries the written values: \<^verbatim>\<open>pin_FDs[0]\<close>
  is \<open>-1\<close> and \<^verbatim>\<open>isr_function_called[0]\<close> is 1. For every pin from 1 to 31 both
  entries are 0, so \<^verbatim>\<open>wait_for_interrupt\<close> does not take the early return for an
  unset descriptor: it polls descriptor 0 and returns what the poll and the read give.
\<close>

theorem initial_tables_sentinel_at_0_only:
  "pin_FDs initial_state 0 = -1 \<and> isr_function_called initial_state 0 = 1
   \<and> (\<forall>pin. 1 \<le> pin \<and> pin \<le> 31 \<longrightarrow>
        pin_FDs initial_state pin = 0 \<and> isr_function_called initial_state pin = 0
      \<and> fst (wait_for_interrupt pin ms c initial_state) =
          (if poll_ret c \<le> 0 then poll_ret c
           else if readret c = sizeof_event_data then sint (event_id c) else 0)
      \<and> take 1 (trace (snd (wait_for_interrupt pin ms c initial_state))) = [Poll 0 ms])"
  by (simp add: initial_state_def wait_for_interrupt_def Let_def)

theorem initial_tables_sentinel_at_0_only_witness:
  "(1::int) \<le> 25 \<and> (25::int) \<le> 31
   \<and> pin_FDs initial_state 25 = 0 \<and> isr_function_called initial_state 25 = 0
   \<and> fst (wait_for_interrupt 25 (-1) rising_event initial_state) = 1
   \<and> take 1 (trace (snd (wait_for_interrupt 25 (-1) rising_event initial_state)))
       = [Poll 0 (-1)]"
  using initial_tables_sentinel_at_0_only [of "-1" rising_event]
  by (simp add: rising_event_def sizeof_event_data_def)

text \<open>
  C10. When the stored descriptor of a pin is \<open>-1\<close>, \<^verbatim>\<open>wait_for_interrupt\<close> returns
  \<open>-2\<close> and leaves the state as it was, so no poll and no read are made. The turn of
  the loop leaves the loop, and the thread runs \<^verbatim>\<open>wait_for_interrupt_to_close\<close> for
  its pin and returns; nothing is added to the trace of calls.
\<close>

theorem unset_descriptor_ends_thread:
  assumes "pin_FDs s pin = -1"
  shows "wait_for_interrupt pin ms c s = (-2, s)
       \<and> interrupt_handler_body pin c s = (True, s)
       \<and> interrupt_handler t pin (c # cs) cancel_ret s =
           (True, (snd (wait_for_interrupt_to_close pin cancel_ret s))
                    \<lparr>threads := filter (\<lambda>tp. fst tp \<noteq> t) (threads s)\<rparr>)
       \<and> trace (snd (interrupt_handler t pin (c # cs) cancel_ret s)) = trace s"
  using assms
  by (simp add: wait_for_interrupt_def interrupt_handler_body_def interrupt_handler_def
      wait_for_interrupt_to_close_def)

theorem unset_descriptor_ends_thread_witness:
  "pin_FDs initial_state 0 = -1
   \<and> wait_for_interrupt 0 (-1) rising_event initial_state = (-2, initial_state)
   \<and> fst (interrupt_handler 1 0 [rising_event] 0 initial_state) = True
   \<and> trace (snd (interrupt_handler 1 0 [rising_event] 0 initial_state)) = []"
proof -
  have h: "pin_FDs initial_state 0 = -1" and tr: "trace initial_state = []"
    by (simp_all add: initial_state_def)
  note t = unset_descriptor_ends_thread [OF h, of "-1" rising_event 1 "[]" 0]
  from t have "wait_for_interrupt 0 (-1) rising_event initial_state = (-2, initial_state)"
    by blast
  moreover from t have "fst (interrupt_handler 1 0 [rising_event] 0 initial_state) = True"
    by simp
  moreover from t
  have "trace (snd (interrupt_handler 1 0 [rising_event] 0 initial_state))
          = trace initial_state"
    by blast
  then have "trace (snd (interrupt_handler 1 0 [rising_event] 0 initial_state)) = []"
    by (simp only: tr)
  ultimately show ?thesis using h by blast
qed

end
